theory Spec2Isabelle
  imports Main
begin

section \<open>Errors\<close>

text \<open>
  Go's \<open>error\<close> values. \<open>New\<close>, \<open>Wrap\<close> and \<open>Errorf\<close> are the three constructors of
  \<open>github.com/pkg/errors\<close> that the package uses; \<open>Errorf\<close> keeps its format string and
  its one integer argument. \<open>External\<close> stands for an error produced outside the package
  (by \<open>net/http\<close>, \<open>net/url\<close>, \<open>encoding/json\<close> or the response body). A nil error is
  \<open>None\<close> of \<open>error option\<close>.
\<close>

datatype error =
    New string
  | Wrap error string
  | Errorf string int
  | External string

section \<open>The provider configuration\<close>

text \<open>
  A Go \<open>[]string\<close> is nil (\<open>None\<close>) or a slice with elements (\<open>Some xs\<close>, where \<open>xs\<close>
  may be empty); \<open>len\<close> is 0 on both the nil and the empty slice. A \<open>*bool\<close> is a
  \<open>bool option\<close>, nil being \<open>None\<close>.
\<close>

type_synonym string_slice = "string list option"

definition len :: "string_slice \<Rightarrow> nat" where
  "len s = (case s of None \<Rightarrow> 0 | Some xs \<Rightarrow> length xs)"

record Configuration =
  Issuer :: string
  AuthorizationEndpoint :: string
  TokenEndpoint :: string
  UserInfoEndpoint :: string
  JWKSURI :: string
  RegistrationEndpoint :: string
  ScopesSupported :: string_slice
  ResponseTypesSupported :: string_slice
  ResponseModesSupported :: string_slice
  GrantTypesSupported :: string_slice
  ACRValuesSupported :: string_slice
  SubjectTypesSupported :: string_slice
  IDTokenSigningAlgValuesSupported :: string_slice
  IDTokenEncryptionEncValuesSupported :: string_slice
  UserInfoSigningAlgValuesSupported :: string_slice
  UserInfoEncryptionAlgValuesSupported :: string_slice
  UserInfoEncryptionEncValuesSupported :: string_slice
  RequestObjectSigningAlgValuesSupported :: string_slice
  RequestObjectEncryptionAlgValuesSupported :: string_slice
  RequestObjectEncryptionEncValuesSupported :: string_slice
  TokenEndpointAuthMethodsSupported :: string_slice
  TokenEndpointAuthSigningAlgValuesSupported :: string_slice
  DisplayValuesSupported :: string_slice
  ClaimTypesSupported :: string_slice
  ClaimsSupported :: string_slice
  ServiceDocumentation :: string
  ClaimsLocalesSupported :: string_slice
  UILocalesSupported :: string_slice
  ClaimsParameterSupported :: bool
  RequestParameterSupported :: bool
  RequestURIParameterSupported :: "bool option"
  RequireRequestURIRegistration :: bool
  OpPolicyURI :: string
  OpTOSURI :: string

text \<open>The zero value of the struct: what \<open>var config Configuration\<close> holds.\<close>

definition zero_Configuration :: Configuration where
  "zero_Configuration = \<lparr>
     Issuer = '''', AuthorizationEndpoint = '''', TokenEndpoint = '''',
     UserInfoEndpoint = '''', JWKSURI = '''', RegistrationEndpoint = '''',
     ScopesSupported = None, ResponseTypesSupported = None,
     ResponseModesSupported = None, GrantTypesSupported = None,
     ACRValuesSupported = None, SubjectTypesSupported = None,
     IDTokenSigningAlgValuesSupported = None,
     IDTokenEncryptionEncValuesSupported = None,
     UserInfoSigningAlgValuesSupported = None,
     UserInfoEncryptionAlgValuesSupported = None,
     UserInfoEncryptionEncValuesSupported = None,
     RequestObjectSigningAlgValuesSupported = None,
     RequestObjectEncryptionAlgValuesSupported = None,
     RequestObjectEncryptionEncValuesSupported = None,
     TokenEndpointAuthMethodsSupported = None,
     TokenEndpointAuthSigningAlgValuesSupported = None,
     DisplayValuesSupported = None, ClaimTypesSupported = None,
     ClaimsSupported = None, ServiceDocumentation = '''',
     ClaimsLocalesSupported = None, UILocalesSupported = None,
     ClaimsParameterSupported = False, RequestParameterSupported = False,
     RequestURIParameterSupported = None, RequireRequestURIRegistration = False,
     OpPolicyURI = '''', OpTOSURI = '''' \<rparr>"

text \<open>\<open>Valid\<close> checks the fields in the order of the source and returns the first complaint.\<close>

definition Valid :: "Configuration \<Rightarrow> error option" where
  "Valid config =
     (if Issuer config = '''' then
        Some (New ''authproxy/oidc: issuer is empty'')
      else if AuthorizationEndpoint config = '''' then
        Some (New ''authproxy/oidc: authorization_endpoint is empty'')
      else if JWKSURI config = '''' then
        Some (New ''authproxy/oidc: jwks_uri is empty'')
      else if len (ResponseTypesSupported config) = 0 then
        Some (New ''authproxy/oidc: response_types_supported is empty'')
      else if len (SubjectTypesSupported config) = 0 then
        Some (New ''authproxy/oidc: subject_types_supported is empty'')
      else if len (IDTokenSigningAlgValuesSupported config) = 0 then
        Some (New ''authproxy/oidc: id_token_signing_alg_values_supported is empty'')
      else None)"

text \<open>
  \<open>FillDefaultValuesIfEmpty\<close> has a pointer receiver and assigns in place; the model
  returns the struct after the four assignments, made one after the other.
\<close>

definition FillDefaultValuesIfEmpty :: "Configuration \<Rightarrow> Configuration" where
  "FillDefaultValuesIfEmpty config =
     (let config = (if len (ResponseModesSupported config) = 0
                    then config\<lparr>ResponseModesSupported := Some [''query'', ''fragment'']\<rparr>
                    else config);
          config = (if len (GrantTypesSupported config) = 0
                    then config\<lparr>GrantTypesSupported := Some [''authorization_code'', ''implicit'']\<rparr>
                    else config);
          config = (if len (TokenEndpointAuthMethodsSupported config) = 0
                    then config\<lparr>TokenEndpointAuthMethodsSupported := Some [''client_secret_basic'']\<rparr>
                    else config);
          config = (if RequestURIParameterSupported config = None
                    then config\<lparr>RequestURIParameterSupported := Some True\<rparr>
                    else config)
      in config)"

section \<open>The discovery fetch\<close>

text \<open>
  What \<open>GetOpenIDConnectConfiguration\<close> sees of \<open>net/http\<close>. A \<open>context.Context\<close> is an
  interface value, so the parameter is a \<open>Context option\<close> with \<open>None\<close> the nil interface;
  a \<open>*http.Client\<close> is a \<open>Client option\<close> in the same way. The response body is an
  \<open>io.ReadCloser\<close>: the bytes it yields and what its \<open>Close\<close> returns.
\<close>

datatype Context = Background | Derived nat

datatype Client = Client nat

record Request =
  Method :: string
  URL :: string
  Ctx :: Context

record ReadCloser =
  Bytes :: string
  CloseErr :: "error option"

record Response =
  StatusCode :: int
  Body :: ReadCloser

text \<open>
  The library calls whose results the function branches on are parameters: whether
  \<open>net/url\<close> accepts the URL, what \<open>client.Do\<close> returns for a client and a request, and
  what \<open>json.Decoder.Decode\<close> makes of a body (the error, and the struct it was handed
  with whatever the decoder stored in it).
\<close>

record http_env =
  DefaultClient :: Client
  ParseURL :: "string \<Rightarrow> error option"
  Do :: "Client \<Rightarrow> Request \<Rightarrow> error + Response"
  Decode :: "ReadCloser \<Rightarrow> Configuration \<Rightarrow> error option \<times> Configuration"

datatype panic = PanicString string | PanicError error

datatype 'a outcome = Returned 'a | Panicked panic

definition MethodGet :: string where
  "MethodGet = ''GET''"

definition StatusOK :: int where
  "StatusOK = 200"

text \<open>
  \<open>http.NewRequest\<close> with a nil body: the method \<open>GET\<close> is always a valid one, so the
  call fails exactly when the URL does not parse; the new request carries the
  background context.
\<close>

definition NewRequest :: "http_env \<Rightarrow> string \<Rightarrow> string \<Rightarrow> error + Request" where
  "NewRequest env method url =
     (case ParseURL env url of
        Some err \<Rightarrow> Inl err
      | None \<Rightarrow> Inr \<lparr>Method = method, URL = url, Ctx = Background\<rparr>)"

text \<open>\<open>Request.WithContext\<close> panics on a nil context and copies the request otherwise.\<close>

definition WithContext :: "Request \<Rightarrow> Context option \<Rightarrow> Request outcome" where
  "WithContext req ctx =
     (case ctx of
        None \<Rightarrow> Panicked (PanicString ''nil context'')
      | Some c \<Rightarrow> Returned (req\<lparr>Ctx := c\<rparr>))"

text \<open>
  The deferred function: it runs after the return statement has set the results, closes
  the body, and overwrites the named result \<open>err\<close> when closing fails.
\<close>

definition deferred_close ::
    "Response \<Rightarrow> Configuration \<times> error option \<Rightarrow> Configuration \<times> error option" where
  "deferred_close resp r =
     (case CloseErr (Body resp) of
        Some errClose \<Rightarrow>
          (fst r, Some (Wrap errClose ''authproxy/oidc: couldn't close HTTP response body''))
      | None \<Rightarrow> r)"

text \<open>
  The function itself. Its results are the named pair \<open>(config, err)\<close>; \<open>config\<close> starts
  as the zero value. The two early returns come before the \<open>defer\<close> statement, so the
  body is closed on the three later returns only.
\<close>

definition GetOpenIDConnectConfiguration ::
    "http_env \<Rightarrow> Context option \<Rightarrow> Client option \<Rightarrow> string \<Rightarrow>
       (Configuration \<times> error option) outcome" where
  "GetOpenIDConnectConfiguration env ctx client url =
     (let client = (case client of None \<Rightarrow> DefaultClient env | Some c \<Rightarrow> c);
          config = zero_Configuration
      in case NewRequest env MethodGet url of
           Inl err \<Rightarrow>
             Returned (config, Some (Wrap err ''authproxy/oidc: couldn't create HTTP request''))
         | Inr req \<Rightarrow>
            (case WithContext req ctx of
               Panicked p \<Rightarrow> Panicked p
             | Returned req \<Rightarrow>
                (case Do env client req of
                   Inl err \<Rightarrow>
                     Returned (config, Some (Wrap err ''authproxy/oidc: HTTP request failed''))
                 | Inr resp \<Rightarrow>
                     Returned (deferred_close resp
                       (if StatusCode resp \<noteq> StatusOK then
                          (config,
                           Some (Errorf ''authproxy:oidc received non-200 status code: %d''
                                   (StatusCode resp)))
                        else
                          (case Decode env (Body resp) config of
                             (Some err, config) \<Rightarrow>
                               (config,
                                Some (Wrap err
                                  ''authproxy/oidc: couldn't decode HTTP response body to JSON''))
                           | (None, config) \<Rightarrow>
                               (FillDefaultValuesIfEmpty config, None)))))))"

section \<open>The program\<close>

text \<open>
  \<open>main\<close> of \<open>cmd/jwt-auth-proxy\<close>. Everything but its last four lines is commented out
  in the source. \<open>os.Getenv\<close> and \<open>server.RunHTTP\<close> are parameters of the world the
  program runs in, which also holds the HTTP environment a discovery fetch would meet.
  The model returns the calls \<open>main\<close> makes, in order, and how it ends.
\<close>

datatype Handler = Echo

datatype call =
    CallGetenv string
  | CallGetOpenIDConnectConfiguration string
  | CallRunHTTP string Handler

record world =
  Getenv :: "string \<Rightarrow> string"
  RunHTTP :: "string \<Rightarrow> Handler \<Rightarrow> error option"
  Provider :: http_env

definition main :: "world \<Rightarrow> call list \<times> unit outcome" where
  "main w =
     (let port = Getenv w ''PORT'';
          err = RunHTTP w port Echo
      in ([CallGetenv ''PORT'', CallRunHTTP port Echo],
          (case err of
             Some e \<Rightarrow> Panicked (PanicError e)
           | None \<Rightarrow> Returned ())))"

fun is_discovery :: "call \<Rightarrow> bool" where
  "is_discovery (CallGetOpenIDConnectConfiguration u) = True"
| "is_discovery c = False"

fun is_serve :: "call \<Rightarrow> bool" where
  "is_serve (CallRunHTTP p h) = True"
| "is_serve c = False"

section \<open>Concrete environments\<close>

text \<open>
  Environments to run the definitions in. \<open>net/url\<close> refuses, among others, a URL
  that holds an ASCII control byte; the example parser refuses exactly those.
\<close>

definition has_control_byte :: "string \<Rightarrow> bool" where
  "has_control_byte u = list_ex (\<lambda>c. (of_char c :: nat) < 32 \<or> (of_char c :: nat) = 127) u"

definition example_ParseURL :: "string \<Rightarrow> error option" where
  "example_ParseURL u =
     (if has_control_byte u
      then Some (External ''net/url: invalid control character in URL'')
      else None)"

definition well_known_url :: string where
  "well_known_url = ''https://op.example/.well-known/openid-configuration''"

definition broken_url :: string where
  "broken_url = ''https://op.example/'' @ [CHR 0x0A]"

text \<open>
  A provider that answers 200 with the body \<open>{}\<close>: the decoder stores nothing in the
  struct and reports no error.
\<close>

definition empty_document_env :: http_env where
  "empty_document_env = \<lparr>
     DefaultClient = Client 0,
     ParseURL = example_ParseURL,
     Do = (\<lambda>c req. Inr \<lparr>StatusCode = 200, Body = \<lparr>Bytes = ''{}'', CloseErr = None\<rparr>\<rparr>),
     Decode = (\<lambda>b config.
       if Bytes b = ''{}'' then (None, config)
       else (Some (External ''invalid character''), config)) \<rparr>"

text \<open>A provider that answers 404 to every request.\<close>

definition not_found_env :: http_env where
  "not_found_env = \<lparr>
     DefaultClient = Client 0,
     ParseURL = example_ParseURL,
     Do = (\<lambda>c req. Inr \<lparr>StatusCode = 404,
                           Body = \<lparr>Bytes = ''404 page not found'', CloseErr = None\<rparr>\<rparr>),
     Decode = (\<lambda>b config. (Some (External ''invalid character''), config)) \<rparr>"

text \<open>
  A provider that answers 200 with a document holding the six required fields, one of
  the defaultable lists and the defaultable flag. \<open>closeErr\<close> is what closing the body
  returns.
\<close>

definition example_bytes :: string where
  \<open>example_bytes =
     ''{"issuer":"https://op.example",'' @
     ''"authorization_endpoint":"https://op.example/authorize",'' @
     ''"jwks_uri":"https://op.example/jwks",'' @
     ''"response_types_supported":["code"],'' @
     ''"subject_types_supported":["public"],'' @
     ''"id_token_signing_alg_values_supported":["RS256"],'' @
     ''"grant_types_supported":["refresh_token"],'' @
     ''"request_uri_parameter_supported":false}''\<close>

definition example_document :: "Configuration \<Rightarrow> Configuration" where
  "example_document config = config\<lparr>
     Issuer := ''https://op.example'',
     AuthorizationEndpoint := ''https://op.example/authorize'',
     JWKSURI := ''https://op.example/jwks'',
     ResponseTypesSupported := Some [''code''],
     SubjectTypesSupported := Some [''public''],
     IDTokenSigningAlgValuesSupported := Some [''RS256''],
     GrantTypesSupported := Some [''refresh_token''],
     RequestURIParameterSupported := Some False \<rparr>"

definition example_env :: "error option \<Rightarrow> http_env" where
  "example_env closeErr = \<lparr>
     DefaultClient = Client 0,
     ParseURL = example_ParseURL,
     Do = (\<lambda>c req. Inr \<lparr>StatusCode = 200,
                           Body = \<lparr>Bytes = example_bytes, CloseErr = closeErr\<rparr>\<rparr>),
     Decode = (\<lambda>b config.
       if Bytes b = example_bytes then (None, example_document config)
       else (Some (External ''invalid character''), config)) \<rparr>"

text \<open>
  A provider that answers 200 with a document that holds the issuer and the
  authorization endpoint and nothing else.
\<close>

definition partial_bytes :: string where
  \<open>partial_bytes =
     ''{"issuer":"https://op.example",'' @
     ''"authorization_endpoint":"https://op.example/authorize"}''\<close>

definition partial_document :: "Configuration \<Rightarrow> Configuration" where
  "partial_document config = config\<lparr>
     Issuer := ''https://op.example'',
     AuthorizationEndpoint := ''https://op.example/authorize'' \<rparr>"

definition partial_document_env :: http_env where
  "partial_document_env = \<lparr>
     DefaultClient = Client 0,
     ParseURL = example_ParseURL,
     Do = (\<lambda>c req. Inr \<lparr>StatusCode = 200,
                           Body = \<lparr>Bytes = partial_bytes, CloseErr = None\<rparr>\<rparr>),
     Decode = (\<lambda>b config.
       if Bytes b = partial_bytes then (None, partial_document config)
       else (Some (External ''invalid character''), config)) \<rparr>"





text \<open>A world whose provider answers 404, with \<open>PORT=3000\<close> and a server that stops cleanly.\<close>

definition not_found_world :: world where
  "not_found_world = \<lparr>
     Getenv = (\<lambda>k. if k = ''PORT'' then ''3000'' else ''''),
     RunHTTP = (\<lambda>port h. None),
     Provider = not_found_env \<rparr>"

section \<open>Properties of the configuration\<close>

lemma len_eq_0_iff: "len s = 0 \<longleftrightarrow> s = None \<or> s = Some []"
  by (cases s) (simp_all add: len_def)

lemma FillDefaultValuesIfEmpty_fields:
  "FillDefaultValuesIfEmpty c = c\<lparr>
     ResponseModesSupported :=
       (if len (ResponseModesSupported c) = 0 then Some [''query'', ''fragment'']
        else ResponseModesSupported c),
     GrantTypesSupported :=
       (if len (GrantTypesSupported c) = 0 then Some [''authorization_code'', ''implicit'']
        else GrantTypesSupported c),
     TokenEndpointAuthMethodsSupported :=
       (if len (TokenEndpointAuthMethodsSupported c) = 0 then Some [''client_secret_basic'']
        else TokenEndpointAuthMethodsSupported c),
     RequestURIParameterSupported :=
       (if RequestURIParameterSupported c = None then Some True
        else RequestURIParameterSupported c)\<rparr>"
  by (simp add: FillDefaultValuesIfEmpty_def Let_def)

lemma FillDefaultValuesIfEmpty_set:
  "len (ResponseModesSupported (FillDefaultValuesIfEmpty c)) \<noteq> 0"
  "len (GrantTypesSupported (FillDefaultValuesIfEmpty c)) \<noteq> 0"
  "len (TokenEndpointAuthMethodsSupported (FillDefaultValuesIfEmpty c)) \<noteq> 0"
  "RequestURIParameterSupported (FillDefaultValuesIfEmpty c) \<noteq> None"
  by (auto simp: FillDefaultValuesIfEmpty_fields len_def)

lemma Valid_FillDefaultValuesIfEmpty: "Valid (FillDefaultValuesIfEmpty c) = Valid c"
  by (simp add: FillDefaultValuesIfEmpty_fields Valid_def)

text \<open>
  C5. \<open>Valid\<close> returns nil exactly when \<open>Issuer\<close>, \<open>AuthorizationEndpoint\<close> and \<open>JWKSURI\<close>
  are non-empty strings and \<open>ResponseTypesSupported\<close>, \<open>SubjectTypesSupported\<close> and
  \<open>IDTokenSigningAlgValuesSupported\<close> are non-empty lists; and its result does not move
  when every other field of the struct, \<open>TokenEndpoint\<close> among them, is overwritten with
  an arbitrary value.
\<close>

theorem Valid_iff_required_fields:
  "(Valid c = None \<longleftrightarrow>
      Issuer c \<noteq> '''' \<and> AuthorizationEndpoint c \<noteq> '''' \<and> JWKSURI c \<noteq> '''' \<and>
      len (ResponseTypesSupported c) \<noteq> 0 \<and> len (SubjectTypesSupported c) \<noteq> 0 \<and>
      len (IDTokenSigningAlgValuesSupported c) \<noteq> 0) \<and>
   Valid (c\<lparr>
      TokenEndpoint := v1, UserInfoEndpoint := v2, RegistrationEndpoint := v3,
      ScopesSupported := v4, ResponseModesSupported := v5, GrantTypesSupported := v6,
      ACRValuesSupported := v7, IDTokenEncryptionEncValuesSupported := v8,
      UserInfoSigningAlgValuesSupported := v9,
      UserInfoEncryptionAlgValuesSupported := v10,
      UserInfoEncryptionEncValuesSupported := v11,
      RequestObjectSigningAlgValuesSupported := v12,
      RequestObjectEncryptionAlgValuesSupported := v13,
      RequestObjectEncryptionEncValuesSupported := v14,
      TokenEndpointAuthMethodsSupported := v15,
      TokenEndpointAuthSigningAlgValuesSupported := v16,
      DisplayValuesSupported := v17, ClaimTypesSupported := v18,
      ClaimsSupported := v19, ServiceDocumentation := v20,
      ClaimsLocalesSupported := v21, UILocalesSupported := v22,
      ClaimsParameterSupported := v23, RequestParameterSupported := v24,
      RequestURIParameterSupported := v25, RequireRequestURIRegistration := v26,
      OpPolicyURI := v27, OpTOSURI := v28\<rparr>) = Valid c"
  by (simp add: Valid_def)

text \<open>
  C8. \<open>FillDefaultValuesIfEmpty\<close> is idempotent: a second application leaves the
  struct as the first one made it.
\<close>

theorem FillDefaultValuesIfEmpty_idempotent:
  "FillDefaultValuesIfEmpty (FillDefaultValuesIfEmpty c) = FillDefaultValuesIfEmpty c"
  by (simp add: FillDefaultValuesIfEmpty_fields len_def)

text \<open>
  C9. \<open>FillDefaultValuesIfEmpty\<close> writes to \<open>ResponseModesSupported\<close>,
  \<open>GrantTypesSupported\<close>, \<open>TokenEndpointAuthMethodsSupported\<close> and
  \<open>RequestURIParameterSupported\<close> only: the struct after the call is the struct before
  it with those four fields updated, each of the thirty other fields reads as before,
  and \<open>Valid\<close> gives the same verdict before and after.
\<close>

theorem FillDefaultValuesIfEmpty_frame:
  "FillDefaultValuesIfEmpty c = c\<lparr>
      ResponseModesSupported := ResponseModesSupported (FillDefaultValuesIfEmpty c),
      GrantTypesSupported := GrantTypesSupported (FillDefaultValuesIfEmpty c),
      TokenEndpointAuthMethodsSupported :=
        TokenEndpointAuthMethodsSupported (FillDefaultValuesIfEmpty c),
      RequestURIParameterSupported :=
        RequestURIParameterSupported (FillDefaultValuesIfEmpty c)\<rparr> \<and>
   Issuer (FillDefaultValuesIfEmpty c) = Issuer c \<and>
   AuthorizationEndpoint (FillDefaultValuesIfEmpty c) = AuthorizationEndpoint c \<and>
   TokenEndpoint (FillDefaultValuesIfEmpty c) = TokenEndpoint c \<and>
   UserInfoEndpoint (FillDefaultValuesIfEmpty c) = UserInfoEndpoint c \<and>
   JWKSURI (FillDefaultValuesIfEmpty c) = JWKSURI c \<and>
   RegistrationEndpoint (FillDefaultValuesIfEmpty c) = RegistrationEndpoint c \<and>
   ScopesSupported (FillDefaultValuesIfEmpty c) = ScopesSupported c \<and>
   ResponseTypesSupported (FillDefaultValuesIfEmpty c) = ResponseTypesSupported c \<and>
   ACRValuesSupported (FillDefaultValuesIfEmpty c) = ACRValuesSupported c \<and>
   SubjectTypesSupported (FillDefaultValuesIfEmpty c) = SubjectTypesSupported c \<and>
   IDTokenSigningAlgValuesSupported (FillDefaultValuesIfEmpty c) =
     IDTokenSigningAlgValuesSupported c \<and>
   IDTokenEncryptionEncValuesSupported (FillDefaultValuesIfEmpty c) =
     IDTokenEncryptionEncValuesSupported c \<and>
   UserInfoSigningAlgValuesSupported (FillDefaultValuesIfEmpty c) =
     UserInfoSigningAlgValuesSupported c \<and>
   UserInfoEncryptionAlgValuesSupported (FillDefaultValuesIfEmpty c) =
     UserInfoEncryptionAlgValuesSupported c \<and>
   UserInfoEncryptionEncValuesSupported (FillDefaultValuesIfEmpty c) =
     UserInfoEncryptionEncValuesSupported c \<and>
   RequestObjectSigningAlgValuesSupported (FillDefaultValuesIfEmpty c) =
     RequestObjectSigningAlgValuesSupported c \<and>
   RequestObjectEncryptionAlgValuesSupported (FillDefaultValuesIfEmpty c) =
     RequestObjectEncryptionAlgValuesSupported c \<and>
   RequestObjectEncryptionEncValuesSupported (FillDefaultValuesIfEmpty c) =
     RequestObjectEncryptionEncValuesSupported c \<and>
   TokenEndpointAuthSigningAlgValuesSupported (FillDefaultValuesIfEmpty c) =
     TokenEndpointAuthSigningAlgValuesSupported c \<and>
   DisplayValuesSupported (FillDefaultValuesIfEmpty c) = DisplayValuesSupported c \<and>
   ClaimTypesSupported (FillDefaultValuesIfEmpty c) = ClaimTypesSupported c \<and>
   ClaimsSupported (FillDefaultValuesIfEmpty c) = ClaimsSupported c \<and>
   ServiceDocumentation (FillDefaultValuesIfEmpty c) = ServiceDocumentation c \<and>
   ClaimsLocalesSupported (FillDefaultValuesIfEmpty c) = ClaimsLocalesSupported c \<and>
   UILocalesSupported (FillDefaultValuesIfEmpty c) = UILocalesSupported c \<and>
   ClaimsParameterSupported (FillDefaultValuesIfEmpty c) = ClaimsParameterSupported c \<and>
   RequestParameterSupported (FillDefaultValuesIfEmpty c) = RequestParameterSupported c \<and>
   RequireRequestURIRegistration (FillDefaultValuesIfEmpty c) =
     RequireRequestURIRegistration c \<and>
   OpPolicyURI (FillDefaultValuesIfEmpty c) = OpPolicyURI c \<and>
   OpTOSURI (FillDefaultValuesIfEmpty c) = OpTOSURI c \<and>
   Valid (FillDefaultValuesIfEmpty c) = Valid c"
  by (simp add: FillDefaultValuesIfEmpty_fields Valid_def)

section \<open>Properties of the discovery fetch\<close>

text \<open>
  The function returns a nil error on one path only: the URL parses, the context is
  not nil, the client answers, the status is 200, the body decodes and closes without
  error; the configuration returned is then the decoded one with the defaults filled in.
\<close>

lemma GetOpenIDConnectConfiguration_success_iff:
  "GetOpenIDConnectConfiguration env ctx cl url = Returned (cfg, None) \<longleftrightarrow>
     (\<exists>c resp d.
        ParseURL env url = None \<and> ctx = Some c \<and>
        Do env (case cl of None \<Rightarrow> DefaultClient env | Some x \<Rightarrow> x)
           \<lparr>Method = MethodGet, URL = url, Ctx = c\<rparr> = Inr resp \<and>
        StatusCode resp = StatusOK \<and>
        CloseErr (Body resp) = None \<and>
        Decode env (Body resp) zero_Configuration = (None, d) \<and>
        cfg = FillDefaultValuesIfEmpty d)"
  by (auto simp: GetOpenIDConnectConfiguration_def NewRequest_def WithContext_def
        deferred_close_def Let_def
      split: sum.splits option.splits prod.splits if_splits outcome.splits)

text \<open>
  The function consults its environment at the URL, at the default client, at the
  decoder, and at the client's answer to the one request it builds; two environments
  that agree there give the same result.
\<close>

lemma GetOpenIDConnectConfiguration_cong:
  assumes "ParseURL env' url = ParseURL env url"
    and "DefaultClient env' = DefaultClient env"
    and "Decode env' = Decode env"
    and "\<And>c. ctx = Some c \<Longrightarrow>
           Do env' (case cl of None \<Rightarrow> DefaultClient env | Some x \<Rightarrow> x)
              \<lparr>Method = MethodGet, URL = url, Ctx = c\<rparr> =
           Do env (case cl of None \<Rightarrow> DefaultClient env | Some x \<Rightarrow> x)
              \<lparr>Method = MethodGet, URL = url, Ctx = c\<rparr>"
  shows "GetOpenIDConnectConfiguration env' ctx cl url =
         GetOpenIDConnectConfiguration env ctx cl url"
proof (cases "ParseURL env url")
  case (Some e)
  with assms(1) show ?thesis
    by (simp add: GetOpenIDConnectConfiguration_def NewRequest_def Let_def)
next
  case None
  show ?thesis
  proof (cases ctx)
    case ctxNone: None
    with None assms(1) show ?thesis
      by (simp add: GetOpenIDConnectConfiguration_def NewRequest_def WithContext_def Let_def)
  next
    case (Some c)
    with None assms(1,2,3) assms(4) [OF Some] show ?thesis
      by (simp add: GetOpenIDConnectConfiguration_def NewRequest_def WithContext_def Let_def
          cong del: option.case_cong_weak sum.case_cong_weak prod.case_cong_weak if_weak_cong)
  qed
qed

lemmas example_simps =
  GetOpenIDConnectConfiguration_def NewRequest_def WithContext_def deferred_close_def
  Let_def example_ParseURL_def has_control_byte_def well_known_url_def broken_url_def
  StatusOK_def MethodGet_def

lemma fetch_empty_document:
  "GetOpenIDConnectConfiguration empty_document_env (Some Background) None well_known_url =
     Returned (FillDefaultValuesIfEmpty zero_Configuration, None)"
  by (simp add: example_simps empty_document_env_def)

lemma fetch_example_document:
  "GetOpenIDConnectConfiguration (example_env None) (Some Background) None well_known_url =
     Returned (FillDefaultValuesIfEmpty (example_document zero_Configuration), None)"
  by (simp add: example_simps example_env_def)

text \<open>
  C1, as the specification states it, fails: the function never calls \<open>Valid\<close>. A
  provider that answers 200 with the body \<open>{}\<close> gets a nil error and a configuration
  on which \<open>Valid\<close> complains about the issuer.
\<close>

theorem fetch_returns_invalid_configuration:
  "GetOpenIDConnectConfiguration empty_document_env (Some Background) None well_known_url =
     Returned (FillDefaultValuesIfEmpty zero_Configuration, None) \<and>
   Valid (FillDefaultValuesIfEmpty zero_Configuration) =
     Some (New ''authproxy/oidc: issuer is empty'')"
  by (simp add: fetch_empty_document Valid_FillDefaultValuesIfEmpty)
     (simp add: Valid_def zero_Configuration_def)

text \<open>
  C1, amended. \<open>GetOpenIDConnectConfiguration\<close> does not validate. For every document:
  it returns a nil error exactly when the URL parses, the context is not nil, the
  client answers with status 200, and the body decodes and closes without error,
  whatever the decoded document holds; the configuration returned is then the decoded
  document with the defaults filled in, and \<open>Valid\<close> says of it exactly what it says of
  the decoded document. Checking the required fields is left to the caller, through
  \<open>Valid\<close>.
\<close>

theorem fetch_does_not_validate:
  "(GetOpenIDConnectConfiguration env ctx cl url = Returned (cfg, None) \<longleftrightarrow>
      (\<exists>c resp d.
         ParseURL env url = None \<and> ctx = Some c \<and>
         Do env (case cl of None \<Rightarrow> DefaultClient env | Some x \<Rightarrow> x)
            \<lparr>Method = MethodGet, URL = url, Ctx = c\<rparr> = Inr resp \<and>
         StatusCode resp = StatusOK \<and>
         CloseErr (Body resp) = None \<and>
         Decode env (Body resp) zero_Configuration = (None, d) \<and>
         cfg = FillDefaultValuesIfEmpty d)) \<and>
   Valid (FillDefaultValuesIfEmpty d) = Valid d"
  by (simp add: GetOpenIDConnectConfiguration_success_iff Valid_FillDefaultValuesIfEmpty)

theorem fetch_does_not_validate_witness:
  "GetOpenIDConnectConfiguration partial_document_env (Some Background) None well_known_url =
     Returned (FillDefaultValuesIfEmpty (partial_document zero_Configuration), None) \<and>
   Valid (FillDefaultValuesIfEmpty (partial_document zero_Configuration)) =
     Some (New ''authproxy/oidc: jwks_uri is empty'')"
proof -
  let ?resp = "\<lparr>StatusCode = 200, Body = \<lparr>Bytes = partial_bytes, CloseErr = None\<rparr>\<rparr>"
  note t = fetch_does_not_validate [of partial_document_env "Some Background" None
      well_known_url "FillDefaultValuesIfEmpty (partial_document zero_Configuration)"
      "partial_document zero_Configuration"]
  have "ParseURL partial_document_env well_known_url = None \<and>
        Some Background = Some Background \<and>
        Do partial_document_env
           (case None of None \<Rightarrow> DefaultClient partial_document_env | Some x \<Rightarrow> x)
           \<lparr>Method = MethodGet, URL = well_known_url, Ctx = Background\<rparr> = Inr ?resp \<and>
        StatusCode ?resp = StatusOK \<and>
        CloseErr (Body ?resp) = None \<and>
        Decode partial_document_env (Body ?resp) zero_Configuration =
          (None, partial_document zero_Configuration) \<and>
        FillDefaultValuesIfEmpty (partial_document zero_Configuration) =
          FillDefaultValuesIfEmpty (partial_document zero_Configuration)"
    by (simp add: partial_document_env_def example_ParseURL_def has_control_byte_def
          well_known_url_def StatusOK_def)
  then have "\<exists>c resp d.
        ParseURL partial_document_env well_known_url = None \<and>
        Some Background = Some c \<and>
        Do partial_document_env
           (case None of None \<Rightarrow> DefaultClient partial_document_env | Some x \<Rightarrow> x)
           \<lparr>Method = MethodGet, URL = well_known_url, Ctx = c\<rparr> = Inr resp \<and>
        StatusCode resp = StatusOK \<and>
        CloseErr (Body resp) = None \<and>
        Decode partial_document_env (Body resp) zero_Configuration = (None, d) \<and>
        FillDefaultValuesIfEmpty (partial_document zero_Configuration) =
          FillDefaultValuesIfEmpty d"
    by blast
  with t have g: "GetOpenIDConnectConfiguration partial_document_env (Some Background) None
        well_known_url =
      Returned (FillDefaultValuesIfEmpty (partial_document zero_Configuration), None)"
    by blast
  from t have "Valid (FillDefaultValuesIfEmpty (partial_document zero_Configuration)) =
      Valid (partial_document zero_Configuration)"
    by blast
  moreover have "Valid (partial_document zero_Configuration) =
      Some (New ''authproxy/oidc: jwks_uri is empty'')"
    by (simp add: Valid_def partial_document_def zero_Configuration_def)
  ultimately show ?thesis using g by simp
qed

text \<open>
  C3, as the specification states it, fails: there are two more ways to an error.
  With a provider that answers 200 with a well-formed document, so that the transport
  succeeds, the status is 200 and the body decodes, a body whose \<open>Close\<close> fails still
  makes the function return an error, next to a configuration that \<open>Valid\<close> accepts;
  and a URL that does not parse makes it return an error before any request is sent.
\<close>

theorem fetch_error_outside_three_cases:
  "GetOpenIDConnectConfiguration (example_env (Some (External ''close failed'')))
       (Some Background) None well_known_url =
     Returned (FillDefaultValuesIfEmpty (example_document zero_Configuration),
       Some (Wrap (External ''close failed'')
               ''authproxy/oidc: couldn't close HTTP response body'')) \<and>
   Do (example_env (Some (External ''close failed''))) (Client 0)
       \<lparr>Method = MethodGet, URL = well_known_url, Ctx = Background\<rparr> =
     Inr \<lparr>StatusCode = StatusOK,
          Body = \<lparr>Bytes = example_bytes, CloseErr = Some (External ''close failed'')\<rparr>\<rparr> \<and>
   Decode (example_env (Some (External ''close failed'')))
       \<lparr>Bytes = example_bytes, CloseErr = Some (External ''close failed'')\<rparr>
       zero_Configuration =
     (None, example_document zero_Configuration) \<and>
   Valid (FillDefaultValuesIfEmpty (example_document zero_Configuration)) = None \<and>
   GetOpenIDConnectConfiguration (example_env None) (Some Background) None broken_url =
     Returned (zero_Configuration,
       Some (Wrap (External ''net/url: invalid control character in URL'')
               ''authproxy/oidc: couldn't create HTTP request''))"
  by (simp add: example_simps example_env_def Valid_FillDefaultValuesIfEmpty)
     (simp add: Valid_def example_document_def zero_Configuration_def len_def)

text \<open>
  C3, amended. \<open>GetOpenIDConnectConfiguration\<close> returns a non-nil error in exactly five
  cases: the request cannot be created because the URL does not parse; the transport
  request fails; the response body cannot be decoded; closing the response body fails;
  or the status of the response is not 200. (The last four are reached with a non-nil
  context only.)
\<close>

theorem fetch_error_iff:
  "(\<exists>cfg e. GetOpenIDConnectConfiguration env ctx cl url = Returned (cfg, Some e)) \<longleftrightarrow>
     (\<exists>e. ParseURL env url = Some e) \<or>
     (\<exists>c e. ParseURL env url = None \<and> ctx = Some c \<and>
        Do env (case cl of None \<Rightarrow> DefaultClient env | Some x \<Rightarrow> x)
           \<lparr>Method = MethodGet, URL = url, Ctx = c\<rparr> = Inl e) \<or>
     (\<exists>c resp. ParseURL env url = None \<and> ctx = Some c \<and>
        Do env (case cl of None \<Rightarrow> DefaultClient env | Some x \<Rightarrow> x)
           \<lparr>Method = MethodGet, URL = url, Ctx = c\<rparr> = Inr resp \<and>
        ((\<exists>e. fst (Decode env (Body resp) zero_Configuration) = Some e) \<or>
         (\<exists>e. CloseErr (Body resp) = Some e) \<or>
         StatusCode resp \<noteq> StatusOK))"
  by (auto simp: GetOpenIDConnectConfiguration_def NewRequest_def WithContext_def
        deferred_close_def Let_def
      split: sum.splits option.splits prod.splits if_splits outcome.splits)

text \<open>
  C4. \<open>FillDefaultValuesIfEmpty\<close> replaces each of the four fields exactly when it is
  empty (a nil or zero-length list, a nil pointer) and keeps it otherwise:
  \<open>ResponseModesSupported\<close> becomes \<open>[query, fragment]\<close>, \<open>GrantTypesSupported\<close> becomes
  \<open>[authorization_code, implicit]\<close>, \<open>TokenEndpointAuthMethodsSupported\<close> becomes
  \<open>[client_secret_basic]\<close> and \<open>RequestURIParameterSupported\<close> becomes true. A
  configuration that \<open>GetOpenIDConnectConfiguration\<close> returns with a nil error is the
  decoded document after that replacement, so its four fields are set.
\<close>

theorem defaults_applied:
  "ResponseModesSupported (FillDefaultValuesIfEmpty d) =
     (if len (ResponseModesSupported d) = 0 then Some [''query'', ''fragment'']
      else ResponseModesSupported d) \<and>
   GrantTypesSupported (FillDefaultValuesIfEmpty d) =
     (if len (GrantTypesSupported d) = 0 then Some [''authorization_code'', ''implicit'']
      else GrantTypesSupported d) \<and>
   TokenEndpointAuthMethodsSupported (FillDefaultValuesIfEmpty d) =
     (if len (TokenEndpointAuthMethodsSupported d) = 0 then Some [''client_secret_basic'']
      else TokenEndpointAuthMethodsSupported d) \<and>
   RequestURIParameterSupported (FillDefaultValuesIfEmpty d) =
     (if RequestURIParameterSupported d = None then Some True
      else RequestURIParameterSupported d) \<and>
   (GetOpenIDConnectConfiguration env ctx cl url = Returned (cfg, None) \<longrightarrow>
      (\<exists>c resp doc.
         ctx = Some c \<and>
         Do env (case cl of None \<Rightarrow> DefaultClient env | Some x \<Rightarrow> x)
            \<lparr>Method = MethodGet, URL = url, Ctx = c\<rparr> = Inr resp \<and>
         Decode env (Body resp) zero_Configuration = (None, doc) \<and>
         cfg = FillDefaultValuesIfEmpty doc) \<and>
      len (ResponseModesSupported cfg) \<noteq> 0 \<and>
      len (GrantTypesSupported cfg) \<noteq> 0 \<and>
      len (TokenEndpointAuthMethodsSupported cfg) \<noteq> 0 \<and>
      RequestURIParameterSupported cfg \<noteq> None)"
proof -
  have "GetOpenIDConnectConfiguration env ctx cl url = Returned (cfg, None) \<longrightarrow>
      (\<exists>c resp doc.
         ctx = Some c \<and>
         Do env (case cl of None \<Rightarrow> DefaultClient env | Some x \<Rightarrow> x)
            \<lparr>Method = MethodGet, URL = url, Ctx = c\<rparr> = Inr resp \<and>
         Decode env (Body resp) zero_Configuration = (None, doc) \<and>
         cfg = FillDefaultValuesIfEmpty doc) \<and>
      len (ResponseModesSupported cfg) \<noteq> 0 \<and>
      len (GrantTypesSupported cfg) \<noteq> 0 \<and>
      len (TokenEndpointAuthMethodsSupported cfg) \<noteq> 0 \<and>
      RequestURIParameterSupported cfg \<noteq> None"
    using FillDefaultValuesIfEmpty_set
    by (auto simp: GetOpenIDConnectConfiguration_success_iff)
  then show ?thesis
    by (simp add: FillDefaultValuesIfEmpty_fields)
qed

theorem defaults_applied_witness:
  "GetOpenIDConnectConfiguration (example_env None) (Some Background) None well_known_url =
     Returned (FillDefaultValuesIfEmpty (example_document zero_Configuration), None) \<and>
   ResponseModesSupported (FillDefaultValuesIfEmpty (example_document zero_Configuration)) =
     Some [''query'', ''fragment''] \<and>
   GrantTypesSupported (FillDefaultValuesIfEmpty (example_document zero_Configuration)) =
     Some [''refresh_token''] \<and>
   TokenEndpointAuthMethodsSupported
       (FillDefaultValuesIfEmpty (example_document zero_Configuration)) =
     Some [''client_secret_basic''] \<and>
   RequestURIParameterSupported
       (FillDefaultValuesIfEmpty (example_document zero_Configuration)) =
     Some False \<and>
   len (ResponseModesSupported
          (FillDefaultValuesIfEmpty (example_document zero_Configuration))) \<noteq> 0"
proof -
  have h: "GetOpenIDConnectConfiguration (example_env None) (Some Background) None
             well_known_url =
           Returned (FillDefaultValuesIfEmpty (example_document zero_Configuration), None)"
    by (rule fetch_example_document)
  note t = defaults_applied [of "example_document zero_Configuration" "example_env None"
      "Some Background" None well_known_url
      "FillDefaultValuesIfEmpty (example_document zero_Configuration)"]
  from t h have "len (ResponseModesSupported
      (FillDefaultValuesIfEmpty (example_document zero_Configuration))) \<noteq> 0"
    by blast
  moreover from t have
    "ResponseModesSupported (FillDefaultValuesIfEmpty (example_document zero_Configuration)) =
       Some [''query'', ''fragment'']"
    "GrantTypesSupported (FillDefaultValuesIfEmpty (example_document zero_Configuration)) =
       Some [''refresh_token'']"
    "TokenEndpointAuthMethodsSupported
         (FillDefaultValuesIfEmpty (example_document zero_Configuration)) =
       Some [''client_secret_basic'']"
    "RequestURIParameterSupported
         (FillDefaultValuesIfEmpty (example_document zero_Configuration)) =
       Some False"
    by (simp_all add: example_document_def zero_Configuration_def len_def)
  ultimately show ?thesis using h by simp
qed




text \<open>
  C10. A call with a nil client is safe. The nil client is replaced by the default
  client before anything is done with it, so for every context and URL the call with a
  nil client is the call with the default client. With a non-nil context such a call
  never panics: it returns, and what it returns is computed from the answer of the
  default client to the request, as the source does it step by step; the answers of
  other clients have no part in it.
\<close>

theorem nil_client_is_default_client:
  "GetOpenIDConnectConfiguration env ctx None url =
     GetOpenIDConnectConfiguration env ctx (Some (DefaultClient env)) url \<and>
   (\<exists>r. GetOpenIDConnectConfiguration env (Some c) None url = Returned r) \<and>
   GetOpenIDConnectConfiguration env (Some c) None url =
     (case ParseURL env url of
        Some err \<Rightarrow>
          Returned (zero_Configuration,
            Some (Wrap err ''authproxy/oidc: couldn't create HTTP request''))
      | None \<Rightarrow>
         (case Do env (DefaultClient env) \<lparr>Method = MethodGet, URL = url, Ctx = c\<rparr> of
            Inl err \<Rightarrow>
              Returned (zero_Configuration,
                Some (Wrap err ''authproxy/oidc: HTTP request failed''))
          | Inr resp \<Rightarrow>
              Returned (deferred_close resp
                (if StatusCode resp \<noteq> StatusOK then
                   (zero_Configuration,
                    Some (Errorf ''authproxy:oidc received non-200 status code: %d''
                            (StatusCode resp)))
                 else
                   (case Decode env (Body resp) zero_Configuration of
                      (Some err, config) \<Rightarrow>
                        (config,
                         Some (Wrap err
                           ''authproxy/oidc: couldn't decode HTTP response body to JSON''))
                    | (None, config) \<Rightarrow> (FillDefaultValuesIfEmpty config, None)))))) \<and>
   GetOpenIDConnectConfiguration
       (env\<lparr>Do := (\<lambda>cl req. if cl = DefaultClient env then Do env cl req
                              else other cl req)\<rparr>)
       ctx None url =
     GetOpenIDConnectConfiguration env ctx None url"
proof (intro conjI)
  show "GetOpenIDConnectConfiguration env ctx None url =
      GetOpenIDConnectConfiguration env ctx (Some (DefaultClient env)) url"
    by (simp add: GetOpenIDConnectConfiguration_def)
next
  show "\<exists>r. GetOpenIDConnectConfiguration env (Some c) None url = Returned r"
    by (simp add: GetOpenIDConnectConfiguration_def NewRequest_def WithContext_def Let_def
        split: option.splits sum.splits)
next
  show "GetOpenIDConnectConfiguration
       (env\<lparr>Do := (\<lambda>cl req. if cl = DefaultClient env then Do env cl req
                              else other cl req)\<rparr>)
       ctx None url =
     GetOpenIDConnectConfiguration env ctx None url"
    by (rule GetOpenIDConnectConfiguration_cong) simp_all
next
  show "GetOpenIDConnectConfiguration env (Some c) None url =
     (case ParseURL env url of
        Some err \<Rightarrow>
          Returned (zero_Configuration,
            Some (Wrap err ''authproxy/oidc: couldn't create HTTP request''))
      | None \<Rightarrow>
         (case Do env (DefaultClient env) \<lparr>Method = MethodGet, URL = url, Ctx = c\<rparr> of
            Inl err \<Rightarrow>
              Returned (zero_Configuration,
                Some (Wrap err ''authproxy/oidc: HTTP request failed''))
          | Inr resp \<Rightarrow>
              Returned (deferred_close resp
                (if StatusCode resp \<noteq> StatusOK then
                   (zero_Configuration,
                    Some (Errorf ''authproxy:oidc received non-200 status code: %d''
                            (StatusCode resp)))
                 else
                   (case Decode env (Body resp) zero_Configuration of
                      (Some err, config) \<Rightarrow>
                        (config,
                         Some (Wrap err
                           ''authproxy/oidc: couldn't decode HTTP response body to JSON''))
                    | (None, config) \<Rightarrow> (FillDefaultValuesIfEmpty config, None))))))"
    by (cases "ParseURL env url")
       (simp_all add: GetOpenIDConnectConfiguration_def NewRequest_def WithContext_def
          Let_def)
qed

section \<open>Properties of the program\<close>

text \<open>
  C2, as the specification states it, fails: \<open>main\<close> makes no discovery fetch. In a
  world whose provider answers 404, where a fetch would return an error, \<open>main\<close> reads
  \<open>PORT\<close>, hands the echo upstream to \<open>server.RunHTTP\<close> and ends without a panic.
\<close>

theorem main_serves_without_discovery:
  "GetOpenIDConnectConfiguration (Provider not_found_world) (Some Background) None
       well_known_url =
     Returned (zero_Configuration,
       Some (Errorf ''authproxy:oidc received non-200 status code: %d'' 404)) \<and>
   main not_found_world = ([CallGetenv ''PORT'', CallRunHTTP ''3000'' Echo], Returned ()) \<and>
   list_ex is_serve (fst (main not_found_world)) \<and>
   \<not> list_ex is_discovery (fst (main not_found_world))"
  by (simp add: example_simps not_found_world_def not_found_env_def main_def)

text \<open>
  C2, amended. At startup the program performs no discovery: \<open>main\<close> reads \<open>PORT\<close> and
  calls \<open>server.RunHTTP\<close> with the echo upstream, and these are all the calls it makes;
  it panics with the error of \<open>RunHTTP\<close> when there is one and returns otherwise; and
  what the provider would answer has no effect on any of this.
\<close>

theorem main_ignores_provider:
  "fst (main w) = [CallGetenv ''PORT'', CallRunHTTP (Getenv w ''PORT'') Echo] \<and>
   \<not> list_ex is_discovery (fst (main w)) \<and>
   snd (main w) =
     (case RunHTTP w (Getenv w ''PORT'') Echo of
        Some e \<Rightarrow> Panicked (PanicError e)
      | None \<Rightarrow> Returned ()) \<and>
   main (w\<lparr>Provider := env\<rparr>) = main w"
  by (simp add: main_def Let_def)

end
